theory Spec2Isabelle
  imports Main
begin

section \<open>Python strings\<close>

text \<open>
  A Python \<open>str\<close> is modelled as a \<open>string\<close>, one \<open>char\<close> per code point, so the model
  covers the code points below 256. \<open>py_isspace\<close> is the whitespace test that
  \<open>str.strip()\<close> and the regular expression class \<open>\s\<close> both use, on that range:
  U+0009..U+000D, U+001C..U+001F, U+0020, U+0085 and U+00A0.
\<close>

definition py_isspace :: "char \<Rightarrow> bool" where
  "py_isspace c =
     (let n = of_char c :: nat
      in (9 \<le> n \<and> n \<le> 13) \<or> (28 \<le> n \<and> n \<le> 32) \<or> n = 133 \<or> n = 160)"

definition strip :: "string \<Rightarrow> string" where
  "strip s = rev (dropWhile py_isspace (rev (dropWhile py_isspace s)))"

text \<open>\<open>str.lower()\<close> on code points below 256: A..Z and U+00C0..U+00DE (U+00D7 apart).\<close>

definition lower_char :: "char \<Rightarrow> char" where
  "lower_char c =
     (let n = of_char c :: nat
      in if (65 \<le> n \<and> n \<le> 90) \<or> (192 \<le> n \<and> n \<le> 222 \<and> n \<noteq> 215)
         then char_of (n + 32) else c)"

definition lower :: "string \<Rightarrow> string" where
  "lower s = map lower_char s"

definition startswith :: "string \<Rightarrow> string \<Rightarrow> bool" where
  "startswith s p = (take (length p) s = p)"

definition endswith :: "string \<Rightarrow> string \<Rightarrow> bool" where
  "endswith s p = (length p \<le> length s \<and> drop (length s - length p) s = p)"

text \<open>\<open>sep.join(parts)\<close>.\<close>

fun join :: "string \<Rightarrow> string list \<Rightarrow> string" where
  "join sep [] = []"
| "join sep [x] = x"
| "join sep (x # y # ys) = x @ sep @ join sep (y # ys)"

text \<open>
  Truthiness of a \<open>str | None\<close> value, and \<open>a or b\<close> on strings: \<open>None\<close> and the empty
  string are falsy.
\<close>

fun truthy :: "string option \<Rightarrow> bool" where
  "truthy None = False"
| "truthy (Some s) = (s \<noteq> [])"

definition str_or :: "string \<Rightarrow> string \<Rightarrow> string" where
  "str_or a b = (if a \<noteq> [] then a else b)"

text \<open>\<open>s.replace(old, new)\<close> for a non-empty \<open>old\<close>: every occurrence, left to right.\<close>

function replace :: "string \<Rightarrow> string \<Rightarrow> string \<Rightarrow> string" where
  "replace old new [] = []"
| "replace old new (c # cs) =
     (if old \<noteq> [] \<and> startswith (c # cs) old
      then new @ replace old new (drop (length old) (c # cs))
      else c # replace old new cs)"
  by pat_completeness auto
termination
  by (relation "measure (\<lambda>(old, new, s). length s)") (auto simp: neq_Nil_conv)

section \<open>Paths (posixpath, pathlib)\<close>

text \<open>
  The path functions the engine calls, in their POSIX form: \<open>os.path.join\<close>,
  \<open>os.path.basename\<close>, the extension part of \<open>os.path.splitext\<close>, and
  \<open>Path(p).suffix\<close>.
\<close>

fun rfind :: "char \<Rightarrow> string \<Rightarrow> nat option" where
  "rfind c [] = None"
| "rfind c (x # xs) =
     (case rfind c xs of
        Some i \<Rightarrow> Some (Suc i)
      | None \<Rightarrow> if x = c then Some 0 else None)"

definition path_join :: "string \<Rightarrow> string \<Rightarrow> string" where
  "path_join a b =
     (if startswith b ''/'' then b
      else if a = [] \<or> endswith a ''/'' then a @ b
      else a @ ''/'' @ b)"

definition basename :: "string \<Rightarrow> string" where
  "basename p = (case rfind CHR ''/'' p of None \<Rightarrow> p | Some i \<Rightarrow> drop (Suc i) p)"

fun has_non_dot :: "string \<Rightarrow> bool" where
  "has_non_dot [] = False"
| "has_non_dot (c # cs) = (if c \<noteq> CHR ''.'' then True else has_non_dot cs)"

definition splitext_ext :: "string \<Rightarrow> string" where
  "splitext_ext p =
     (let filenameIndex = (case rfind CHR ''/'' p of None \<Rightarrow> 0 | Some i \<Rightarrow> Suc i)
      in case rfind CHR ''.'' p of
           None \<Rightarrow> []
         | Some dotIndex \<Rightarrow>
             if filenameIndex \<le> dotIndex
                \<and> has_non_dot (take (dotIndex - filenameIndex) (drop filenameIndex p))
             then drop dotIndex p
             else [])"

fun split_sep :: "char \<Rightarrow> string \<Rightarrow> string list" where
  "split_sep c [] = [[]]"
| "split_sep c (x # xs) =
     (if x = c then [] # split_sep c xs
      else (case split_sep c xs of [] \<Rightarrow> [[x]] | p # ps \<Rightarrow> (x # p) # ps))"

definition path_name :: "string \<Rightarrow> string" where
  "path_name p =
     (case filter (\<lambda>x. x \<noteq> [] \<and> x \<noteq> ''.'') (split_sep CHR ''/'' p) of
        [] \<Rightarrow> []
      | part # parts \<Rightarrow> last (part # parts))"

definition path_suffix :: "string \<Rightarrow> string" where
  "path_suffix p =
     (let name = path_name p
      in case rfind CHR ''.'' name of
           None \<Rightarrow> []
         | Some i \<Rightarrow> if 0 < i \<and> Suc i < length name then drop i name else [])"

section \<open>Data model (backend/models.py, langchain Document)\<close>

record document =
  page_content :: string
  metadata :: "string \<rightharpoonup> string"

record test_case =
  test_id :: string
  feature :: string
  test_scenario :: string
  expected_result :: string
  grounded_in :: string

record test_plan =
  test_viewpoints :: "string list"
  test_cases :: "test_case list"

text \<open>
  Exceptions as values. \<open>ValueError\<close> and \<open>HTTPException\<close> are the two the repository
  raises itself; \<open>LibraryError\<close> stands for an exception raised inside a library call
  (file system, vector store, model chain, loaders).
\<close>

datatype error =
    ValueError string
  | HTTPException nat string
  | LibraryError string

text \<open>
  What the validator reads of a parsed page: for every tag of the BeautifulSoup document,
  in document order, the value of its \<open>id\<close> and \<open>name\<close> attributes (\<open>tag.get\<close> gives
  \<open>None\<close> when absent) and its \<open>class\<close> attribute, which the parser delivers as a list
  of tokens.
\<close>

record tag =
  attr_id :: "string option"
  attr_name :: "string option"
  attr_class :: "string list option"

text \<open>
  A \<open>Chroma\<close> object is the pair of arguments it was constructed with; the collection
  it is bound to lives in the database state \<open>'db\<close> of the Chroma client, outside the
  engine. A chat model object is its three constructor arguments.
\<close>

record chroma =
  persist_directory :: string
  chroma_embedding :: string

record llm =
  model :: string
  temperature :: int
  google_api_key :: string

text \<open>The fields of a \<open>RAGEngine\<close> instance.\<close>

record engine =
  embedding_function :: string
  vector_store :: chroma
  latest_html_path :: "string option"
  latest_html_content :: "string option"

text \<open>
  What lies outside the engine and changes: the database of the Chroma client, and the
  requests sent to the language model so far (the model object and the variables of the
  prompt), in order.
\<close>

type_synonym llm_request = "llm \<times> (string \<times> string) list"

record 'db world =
  db :: 'db
  llm_calls :: "llm_request list"

text \<open>
  The libraries and the operating system, as the engine calls them. A call that can
  raise returns \<open>error + _\<close>.
  \<^item> \<open>soup_tags\<close> and \<open>soup_get_text\<close>: the tags of \<open>BeautifulSoup(html, "html.parser")\<close>
    and its \<open>get_text(separator="\n")\<close>.
  \<^item> \<open>read_text\<close>: \<open>open(path, "r", encoding="utf-8").read()\<close>; \<open>path_exists\<close>,
    \<open>path_isdir\<close>, \<open>listdir\<close>, \<open>getenv\<close>: the functions of \<open>os\<close>.
  \<^item> \<open>markdown_loader\<close>, \<open>text_loader\<close>, \<open>file_loader\<close>: \<open>load()\<close> of
    \<open>UnstructuredMarkdownLoader\<close>, \<open>TextLoader\<close> and \<open>UnstructuredFileLoader\<close>;
    \<open>json_reserialize\<close>: \<open>json.dumps(json.load(f), indent=2)\<close> on the text of the file.
  \<^item> \<open>split_documents\<close>: \<open>RecursiveCharacterTextSplitter(chunk_size, chunk_overlap)\<close>.
  \<^item> \<open>chroma_init\<close>: the constructor \<open>Chroma(persist_directory, embedding_function)\<close>;
    with \<open>delete_collection\<close> and \<open>add_documents\<close> it writes, and returns the new
    database. \<open>retrieve\<close> is \<open>as_retriever(search_kwargs={"k": k, "filter": f}).invoke(q)\<close>,
    a similarity search that reads the database.
  \<^item> \<open>plan_chain\<close> is the chain \<open>prompt | llm | JsonOutputParser\<close> followed by the
    construction \<open>TestPlan(**result)\<close>; \<open>script_chain\<close> is
    \<open>prompt | llm | StrOutputParser\<close>.
  Methods of the engine keep their names without the leading underscore.
\<close>

record 'db env =
  soup_tags :: "string \<Rightarrow> tag list"
  soup_get_text :: "string \<Rightarrow> string"
  read_text :: "string \<Rightarrow> error + string"
  path_exists :: "string \<Rightarrow> bool"
  path_isdir :: "string \<Rightarrow> bool"
  listdir :: "string \<Rightarrow> error + string list"
  getenv :: "string \<Rightarrow> string option"
  markdown_loader :: "string \<Rightarrow> error + document list"
  text_loader :: "string \<Rightarrow> error + document list"
  file_loader :: "string \<Rightarrow> error + document list"
  json_reserialize :: "string \<Rightarrow> error + string"
  split_documents :: "nat \<Rightarrow> nat \<Rightarrow> document list \<Rightarrow> error + document list"
  chroma_init :: "chroma \<Rightarrow> 'db \<Rightarrow> (error + unit) \<times> 'db"
  delete_collection :: "chroma \<Rightarrow> 'db \<Rightarrow> (error + unit) \<times> 'db"
  add_documents :: "chroma \<Rightarrow> document list \<Rightarrow> 'db \<Rightarrow> (error + unit) \<times> 'db"
  retrieve ::
    "chroma \<Rightarrow> nat \<Rightarrow> (string \<times> string) option \<Rightarrow> string \<Rightarrow> 'db \<Rightarrow> error + document list"
  plan_chain :: "llm_request \<Rightarrow> error + test_plan"
  script_chain :: "llm_request \<Rightarrow> error + string"

definition CHROMA_PATH :: string where
  "CHROMA_PATH = ''data/chroma_db''"

definition UPLOAD_DIR :: string where
  "UPLOAD_DIR = ''data/uploads''"

section \<open>Grounding validation (RAGEngine._collect_sources, _validate_grounding)\<close>

text \<open>\<open>d.get(key, default)\<close> on a metadata dict.\<close>

definition dict_get :: "(string \<rightharpoonup> string) \<Rightarrow> string \<Rightarrow> string \<Rightarrow> string" where
  "dict_get m k dflt = (case m k of None \<Rightarrow> dflt | Some v \<Rightarrow> v)"

definition collect_sources :: "document list \<Rightarrow> string set" where
  "collect_sources docs =
     set (map (\<lambda>doc. dict_get (metadata doc) ''source_document'' ''unknown'')
            (filter (\<lambda>doc. truthy (metadata doc ''source_document'')) docs))"

text \<open>
  The \<open>for case in test_plan.test_cases\<close> loop, with \<open>invalid_cases\<close> as the accumulator
  it appends to.
\<close>

fun grounding_loop ::
  "string set \<Rightarrow> test_case list \<Rightarrow> (string \<times> string) list \<Rightarrow> (string \<times> string) list" where
  "grounding_loop allowed_sources [] invalid_cases = invalid_cases"
| "grounding_loop allowed_sources (c # cs) invalid_cases =
     (let grounded = strip (str_or (grounded_in c) [])
      in if grounded \<notin> allowed_sources
         then grounding_loop allowed_sources cs (invalid_cases @ [(test_id c, grounded)])
         else grounding_loop allowed_sources cs invalid_cases)"

definition grounding_detail :: "(string \<times> string) list \<Rightarrow> string" where
  "grounding_detail invalid_cases =
     join '', '' (map (\<lambda>(tid, src). tid @ '':'' @ str_or src ''missing'') invalid_cases)"

definition validate_grounding :: "test_plan \<Rightarrow> string set \<Rightarrow> error + unit" where
  "validate_grounding plan allowed_sources =
     (if allowed_sources = {} then Inr ()
      else
        let invalid_cases = grounding_loop allowed_sources (test_cases plan) []
        in if invalid_cases \<noteq> []
           then Inl (ValueError
                  (''Grounding validation failed. Unknown sources referenced: ''
                     @ grounding_detail invalid_cases))
           else Inr ())"

section \<open>Selector validation (RAGEngine._validate_selenium_script)\<close>

definition html_ids :: "tag list \<Rightarrow> string set" where
  "html_ids tags =
     set (map (\<lambda>t. the (attr_id t))
            (filter (\<lambda>t. truthy (attr_id t)) (filter (\<lambda>t. attr_id t \<noteq> None) tags)))"

definition html_names :: "tag list \<Rightarrow> string set" where
  "html_names tags =
     set (map (\<lambda>t. the (attr_name t))
            (filter (\<lambda>t. truthy (attr_name t)) (filter (\<lambda>t. attr_name t \<noteq> None) tags)))"

definition html_classes :: "tag list \<Rightarrow> string set" where
  "html_classes tags =
     set (concat (map (\<lambda>t. case attr_class t of None \<Rightarrow> [] | Some classes \<Rightarrow> classes)
                    (filter (\<lambda>t. attr_class t \<noteq> None) tags)))"

text \<open>
  The pattern \<open>By\.(ID|NAME|CSS_SELECTOR)\s*,\s*['"]([^'"]+)['"]\<close>, matched at the head of
  a string. Every choice the pattern leaves is forced (the three method names start with
  different letters, a comma and a quote are no whitespace, and the greedy \<open>[^'"]+\<close> can
  only be followed by a quote where it stops), so the match is computed left to right.
  The result is the pair of groups and the text after the match.
\<close>

definition is_quote :: "char \<Rightarrow> bool" where
  "is_quote c = (c = CHR 0x27 \<or> c = CHR 0x22)"

definition strip_prefix :: "string \<Rightarrow> string \<Rightarrow> string option" where
  "strip_prefix p s = (if startswith s p then Some (drop (length p) s) else None)"

definition match_method :: "string \<Rightarrow> (string \<times> string) option" where
  "match_method s =
     (case strip_prefix ''ID'' s of
        Some r \<Rightarrow> Some (''ID'', r)
      | None \<Rightarrow>
          (case strip_prefix ''NAME'' s of
             Some r \<Rightarrow> Some (''NAME'', r)
           | None \<Rightarrow>
               (case strip_prefix ''CSS_SELECTOR'' s of
                  Some r \<Rightarrow> Some (''CSS_SELECTOR'', r)
                | None \<Rightarrow> None)))"

definition match_selector :: "string \<Rightarrow> ((string \<times> string) \<times> string) option" where
  "match_selector s =
     (case strip_prefix ''By.'' s of
        None \<Rightarrow> None
      | Some s1 \<Rightarrow>
          (case match_method s1 of
             None \<Rightarrow> None
           | Some (method, s2) \<Rightarrow>
               (case dropWhile py_isspace s2 of
                  [] \<Rightarrow> None
                | c # s3 \<Rightarrow>
                    if c \<noteq> CHR '','' then None
                    else
                      (case dropWhile py_isspace s3 of
                         [] \<Rightarrow> None
                       | q # s4 \<Rightarrow>
                           if \<not> is_quote q then None
                           else
                             let selector = takeWhile (\<lambda>x. \<not> is_quote x) s4
                             in if selector = [] then None
                                else
                                  (case dropWhile (\<lambda>x. \<not> is_quote x) s4 of
                                     [] \<Rightarrow> None
                                   | _ # rest \<Rightarrow> Some ((method, selector), rest))))))"

lemma match_selector_shorter:
  assumes "match_selector s = Some (m, rest)"
  shows "length rest < length s"
proof -
  have dw: "length (dropWhile P xs) \<le> length xs" for P and xs :: string
    by (induction xs) auto
  from assms obtain s1 meth s2 c s3 q s4 z where
    s1: "strip_prefix ''By.'' s = Some s1" and
    s2: "match_method s1 = Some (meth, s2)" and
    s3: "dropWhile py_isspace s2 = c # s3" and
    s4: "dropWhile py_isspace s3 = q # s4" and
    r: "dropWhile (\<lambda>x. \<not> is_quote x) s4 = z # rest"
    by (auto simp: match_selector_def Let_def
          split: option.splits list.splits if_splits prod.splits)
  have "length s1 \<le> length s"
    using s1 by (auto simp: strip_prefix_def split: if_splits)
  moreover have "length s2 \<le> length s1"
    using s2 by (auto simp: match_method_def strip_prefix_def split: option.splits if_splits)
  moreover have "length s3 < length s2"
    using dw [of py_isspace s2] s3 by simp
  moreover have "length s4 < length s3"
    using dw [of py_isspace s3] s4 by simp
  moreover have "length rest < length s4"
    using dw [of "\<lambda>x. \<not> is_quote x" s4] r by simp
  ultimately show ?thesis by linarith
qed

text \<open>
  \<open>selector_pattern.findall(script)\<close>: the matches from left to right, each search
  starting where the previous match ended.
\<close>

function findall :: "string \<Rightarrow> (string \<times> string) list" where
  "findall [] = []"
| "findall (c # cs) =
     (case match_selector (c # cs) of
        Some (m, rest) \<Rightarrow> m # findall rest
      | None \<Rightarrow> findall cs)"
  by pat_completeness auto
termination
  by (relation "measure length") (auto dest: match_selector_shorter)

text \<open>The \<open>for method, selector in matches\<close> loop, with \<open>missing\<close> as its accumulator.\<close>

fun selector_loop ::
  "string set \<Rightarrow> string set \<Rightarrow> string set \<Rightarrow> (string \<times> string) list
     \<Rightarrow> (string \<times> string) list \<Rightarrow> (string \<times> string) list" where
  "selector_loop ids names classes [] missing = missing"
| "selector_loop ids names classes ((method, selector) # ms) missing =
     (if method = ''ID'' \<and> selector \<notin> ids
      then selector_loop ids names classes ms (missing @ [(method, selector)])
      else if method = ''NAME'' \<and> selector \<notin> names
      then selector_loop ids names classes ms (missing @ [(method, selector)])
      else if method = ''CSS_SELECTOR''
      then
        (if startswith selector ''#'' \<and> drop 1 selector \<notin> ids
         then selector_loop ids names classes ms (missing @ [(method, selector)])
         else if startswith selector ''.'' \<and> drop 1 selector \<notin> classes
         then selector_loop ids names classes ms (missing @ [(method, selector)])
         else selector_loop ids names classes ms missing)
      else selector_loop ids names classes ms missing)"

definition selector_detail :: "(string \<times> string) list \<Rightarrow> string" where
  "selector_detail missing =
     join '', '' (map (\<lambda>(method, selector). method @ '':'' @ selector) missing)"

text \<open>
  \<open>soup\<close> is the parsed page, \<open>BeautifulSoup(html_source, "html.parser")\<close>, given by its
  tags.
\<close>

definition validate_selenium_script :: "tag list \<Rightarrow> string \<Rightarrow> error + unit" where
  "validate_selenium_script soup script =
     (let matches = findall script
      in if matches = []
         then Inl (ValueError
                ''Generated script lacks identifiable By.ID/NAME/CSS_SELECTOR references. Please regenerate.'')
         else
           let missing =
                 selector_loop (html_ids soup) (html_names soup) (html_classes soup) matches []
           in if missing \<noteq> []
              then Inl (ValueError
                     (''Generated script references selectors not present in checkout.html: ''
                        @ selector_detail missing))
              else Inr ())"


section \<open>The engine (RAGEngine.__init__)\<close>

text \<open>
  \<open>SentenceTransformerEmbeddings(model_name="all-MiniLM-L6-v2")\<close> is kept as the name of
  its model. The constructor of the store opens or creates the collection, which is its
  effect on the database.
\<close>

definition rag_engine_init :: "'db env \<Rightarrow> 'db world \<Rightarrow> (error + engine) \<times> 'db world" where
  "rag_engine_init env w =
     (let ef = ''all-MiniLM-L6-v2'';
          store = \<lparr>persist_directory = CHROMA_PATH, chroma_embedding = ef\<rparr>
      in case chroma_init env store (db w) of
           (Inl e, d) \<Rightarrow> (Inl e, w\<lparr>db := d\<rparr>)
         | (Inr u, d) \<Rightarrow>
             (Inr \<lparr>embedding_function = ef, vector_store = store,
                   latest_html_path = None, latest_html_content = None\<rparr>,
              w\<lparr>db := d\<rparr>))"

section \<open>Plan generation (RAGEngine.generate_test_cases)\<close>

definition get_llm :: "'db env \<Rightarrow> string option \<Rightarrow> llm" where
  "get_llm env api_key =
     (let final_key =
            (if truthy api_key then the api_key
             else (case getenv env ''GOOGLE_API_KEY'' of
                     None \<Rightarrow> ''AIza-placeholder''
                   | Some v \<Rightarrow> v))
      in \<lparr>model = ''gemini-2.0-flash'', temperature = 0, google_api_key = final_key\<rparr>)"

definition format_docs :: "document list \<Rightarrow> string" where
  "format_docs docs =
     (if docs = [] then []
      else join [CHR 0x0A, CHR 0x0A]
             (map (\<lambda>doc. ''[Source:'' @ dict_get (metadata doc) ''source_document'' ''unknown''
                            @ '']'' @ [CHR 0x0A] @ strip (page_content doc))
                docs))"

text \<open>
  Every engine method takes the engine and the world and returns them with its result;
  an exception leaves both as they were when it was raised.
\<close>

definition generate_test_cases ::
  "'db env \<Rightarrow> string \<Rightarrow> string option \<Rightarrow> engine \<times> 'db world
     \<Rightarrow> (error + test_plan) \<times> engine \<times> 'db world" where
  "generate_test_cases env query api_key st =
     (case st of (self, w) \<Rightarrow>
        (case retrieve env (vector_store self) 6 None query (db w) of
           Inl e \<Rightarrow> (Inl e, self, w)
         | Inr context_docs \<Rightarrow>
             let allowed_sources = collect_sources context_docs;
                 context_text = format_docs context_docs;
                 request = (get_llm env api_key,
                            [(''context'', context_text), (''query'', query)]);
                 w1 = w\<lparr>llm_calls := llm_calls w @ [request]\<rparr>
             in (case plan_chain env request of
                   Inl e \<Rightarrow> (Inl e, self, w1)
                 | Inr test_plan \<Rightarrow>
                     (case validate_grounding test_plan allowed_sources of
                        Inl e \<Rightarrow> (Inl e, self, w1)
                      | Inr _ \<Rightarrow> (Inr test_plan, self, w1)))))"

section \<open>Script generation (RAGEngine.generate_selenium_script)\<close>

definition get_html_documents :: "'db env \<Rightarrow> engine \<Rightarrow> 'db world \<Rightarrow> document list" where
  "get_html_documents env self w =
     (case retrieve env (vector_store self) 3 (Some (''doc_type'', ''html''))
             ''checkout page structure'' (db w) of
        Inl e \<Rightarrow> []
      | Inr docs \<Rightarrow> docs)"

text \<open>
  The \<open>for filename in os.listdir(UPLOAD_DIR)\<close> loop of \<open>_get_latest_html_content\<close>: it
  returns from the method at the first name with a page-markup ending.
\<close>

fun scan_uploads ::
  "'db env \<Rightarrow> string list \<Rightarrow> engine \<Rightarrow> (error + string option) \<times> engine" where
  "scan_uploads env [] self = (Inr None, self)"
| "scan_uploads env (filename # rest) self =
     (if endswith (lower filename) ''.html'' \<or> endswith (lower filename) ''.htm''
      then
        (let html_path = path_join UPLOAD_DIR filename
         in case read_text env html_path of
              Inl e \<Rightarrow> (Inl e, self)
            | Inr content \<Rightarrow>
                (Inr (Some content),
                 self\<lparr>latest_html_content := Some content, latest_html_path := Some html_path\<rparr>))
      else scan_uploads env rest self)"

definition get_latest_html_content ::
  "'db env \<Rightarrow> engine \<Rightarrow> (error + string option) \<times> engine" where
  "get_latest_html_content env self =
     (if truthy (latest_html_content self) then (Inr (latest_html_content self), self)
      else if truthy (latest_html_path self) \<and> path_exists env (the (latest_html_path self))
      then
        (case read_text env (the (latest_html_path self)) of
           Inl e \<Rightarrow> (Inl e, self)
         | Inr content \<Rightarrow> (Inr (Some content), self\<lparr>latest_html_content := Some content\<rparr>))
      else if path_isdir env UPLOAD_DIR
      then
        (case listdir env UPLOAD_DIR of
           Inl e \<Rightarrow> (Inl e, self)
         | Inr names \<Rightarrow> scan_uploads env names self)
      else (Inr None, self))"

text \<open>The expression \<open>html_content or self._get_latest_html_content()\<close>.\<close>

definition resolve_html_source ::
  "'db env \<Rightarrow> string option \<Rightarrow> engine \<Rightarrow> (error + string option) \<times> engine" where
  "resolve_html_source env html_content self =
     (if truthy html_content then (Inr html_content, self)
      else get_latest_html_content env self)"

definition generate_selenium_script ::
  "'db env \<Rightarrow> test_case \<Rightarrow> string option \<Rightarrow> string option \<Rightarrow> engine \<times> 'db world
     \<Rightarrow> (error + string) \<times> engine \<times> 'db world" where
  "generate_selenium_script env tc html_content api_key st =
     (case st of (self, w) \<Rightarrow>
        (case retrieve env (vector_store self) 3 (Some (''doc_type'', ''support''))
                (feature tc) (db w) of
           Inl e \<Rightarrow> (Inl e, self, w)
         | Inr docs \<Rightarrow>
             let html_context_docs = get_html_documents env self w;
                 combined_context = format_docs (docs @ html_context_docs)
             in (case resolve_html_source env html_content self of
                   (Inl e, self1) \<Rightarrow> (Inl e, self1, w)
                 | (Inr html_source, self1) \<Rightarrow>
                     if \<not> truthy html_source
                     then (Inl (ValueError
                             ''No checkout HTML is available. Rebuild the knowledge base with checkout.html included.''),
                           self1, w)
                     else
                       let request = (get_llm env api_key,
                                      [(''test_id'', test_id tc),
                                       (''scenario'', test_scenario tc),
                                       (''expected'', expected_result tc),
                                       (''html_content'', the html_source),
                                       (''context'', combined_context)]);
                           w1 = w\<lparr>llm_calls := llm_calls w @ [request]\<rparr>
                       in (case script_chain env request of
                             Inl e \<Rightarrow> (Inl e, self1, w1)
                           | Inr reply \<Rightarrow>
                               let script = strip (replace ''```'' [] (replace ''```python'' [] reply))
                               in (case validate_selenium_script
                                          (soup_tags env (the html_source)) script of
                                     Inl e \<Rightarrow> (Inl e, self1, w1)
                                   | Inr _ \<Rightarrow> (Inr script, self1, w1))))))"

section \<open>Loading and ingestion (RAGEngine._load_with_metadata, ingest_documents)\<close>

definition is_html_ext :: "string \<Rightarrow> bool" where
  "is_html_ext ext = (ext = ''.html'' \<or> ext = ''.htm'')"

definition base_metadata :: "string \<Rightarrow> (string \<rightharpoonup> string)" where
  "base_metadata file_path =
     (let ext = lower (path_suffix file_path)
      in [''source_document'' \<mapsto> basename file_path,
          ''doc_type'' \<mapsto> (if is_html_ext ext then ''html'' else ''support'')])"

definition load_json ::
  "'db env \<Rightarrow> string \<Rightarrow> (string \<rightharpoonup> string) \<Rightarrow> error + document list" where
  "load_json env file_path md =
     (case read_text env file_path of
        Inl e \<Rightarrow> Inl e
      | Inr text \<Rightarrow>
          (case json_reserialize env text of
             Inl e \<Rightarrow> Inl e
           | Inr flattened \<Rightarrow> Inr [\<lparr>page_content = flattened, metadata = md\<rparr>]))"

definition load_html ::
  "'db env \<Rightarrow> string \<Rightarrow> (string \<rightharpoonup> string) \<Rightarrow> engine \<Rightarrow> (error + document list) \<times> engine" where
  "load_html env file_path md self =
     (case read_text env file_path of
        Inl e \<Rightarrow> (Inl e, self)
      | Inr raw_html \<Rightarrow>
          let text = soup_get_text env raw_html
          in (Inr [\<lparr>page_content = text, metadata = md\<rparr>],
              self\<lparr>latest_html_path := Some file_path, latest_html_content := Some raw_html\<rparr>))"

text \<open>The \<open>if ext == ... elif ...\<close> chain that picks the loader.\<close>

definition load_by_extension ::
  "'db env \<Rightarrow> string \<Rightarrow> engine \<Rightarrow> (error + document list) \<times> engine" where
  "load_by_extension env file_path self =
     (let ext = lower (path_suffix file_path)
      in if ext = ''.md'' then (markdown_loader env file_path, self)
         else if ext = ''.txt'' then (text_loader env file_path, self)
         else if ext = ''.json'' then (load_json env file_path (base_metadata file_path), self)
         else if is_html_ext ext then load_html env file_path (base_metadata file_path) self
         else if ext = ''.pdf'' then (file_loader env file_path, self)
         else (text_loader env file_path, self))"

text \<open>\<open>d.setdefault(k, v)\<close>, and the two calls the loop makes on each document.\<close>

definition setdefault ::
  "(string \<rightharpoonup> string) \<Rightarrow> string \<Rightarrow> string \<Rightarrow> (string \<rightharpoonup> string)" where
  "setdefault m k v = (case m k of None \<Rightarrow> m(k \<mapsto> v) | Some _ \<Rightarrow> m)"

definition apply_defaults :: "(string \<rightharpoonup> string) \<Rightarrow> document \<Rightarrow> document" where
  "apply_defaults base doc =
     doc\<lparr>metadata :=
           setdefault
             (setdefault (metadata doc) ''source_document'' (the (base ''source_document'')))
             ''doc_type'' (the (base ''doc_type''))\<rparr>"

definition load_with_metadata ::
  "'db env \<Rightarrow> string \<Rightarrow> engine \<Rightarrow> (error + document list) \<times> engine" where
  "load_with_metadata env file_path self =
     (case load_by_extension env file_path self of
        (Inl e, self1) \<Rightarrow> (Inl e, self1)
      | (Inr docs, self1) \<Rightarrow> (Inr (map (apply_defaults (base_metadata file_path)) docs), self1))"

text \<open>The \<open>for file_path in file_paths\<close> loop, with \<open>documents\<close> as its accumulator.\<close>

fun load_all ::
  "'db env \<Rightarrow> string list \<Rightarrow> engine \<Rightarrow> document list \<Rightarrow> (error + document list) \<times> engine" where
  "load_all env [] self documents = (Inr documents, self)"
| "load_all env (file_path # rest) self documents =
     (case load_with_metadata env file_path self of
        (Inl e, self1) \<Rightarrow> (Inl e, self1)
      | (Inr docs, self1) \<Rightarrow> load_all env rest self1 (documents @ docs))"

definition ingest_documents ::
  "'db env \<Rightarrow> string list \<Rightarrow> engine \<times> 'db world \<Rightarrow> (error + nat) \<times> engine \<times> 'db world" where
  "ingest_documents env file_paths st =
     (case st of (self, w) \<Rightarrow>
        (case load_all env file_paths self [] of
           (Inl e, self1) \<Rightarrow> (Inl e, self1, w)
         | (Inr documents, self1) \<Rightarrow>
             (case split_documents env 1200 150 documents of
                Inl e \<Rightarrow> (Inl e, self1, w)
              | Inr chunks \<Rightarrow>
                  (case add_documents env (vector_store self1) chunks (db w) of
                     (Inl e, d) \<Rightarrow> (Inl e, self1, w\<lparr>db := d\<rparr>)
                   | (Inr _, d) \<Rightarrow> (Inr (length chunks), self1, w\<lparr>db := d\<rparr>)))))"

section \<open>Clearing and building (RAGEngine.clear_database, app.build_knowledge_base)\<close>

text \<open>
  \<open>delete_collection\<close> runs inside \<open>try ... except Exception\<close>: its result is dropped (the
  handler only prints a warning) and the database it leaves is passed on to the
  constructor call \<open>Chroma(persist_directory=CHROMA_PATH, embedding_function=...)\<close>.
\<close>

definition clear_database ::
  "'db env \<Rightarrow> engine \<times> 'db world \<Rightarrow> (error + unit) \<times> engine \<times> 'db world" where
  "clear_database env st =
     (case st of (self, w) \<Rightarrow>
        (case delete_collection env (vector_store self) (db w) of
           (deleted, d1) \<Rightarrow>
             let store = \<lparr>persist_directory = CHROMA_PATH,
                          chroma_embedding = embedding_function self\<rparr>
             in (case chroma_init env store d1 of
                   (Inl e, d2) \<Rightarrow> (Inl e, self, w\<lparr>db := d2\<rparr>)
                 | (Inr _, d2) \<Rightarrow>
                     (Inr (),
                      self\<lparr>vector_store := store,
                           latest_html_path := None,
                           latest_html_content := None\<rparr>,
                      w\<lparr>db := d2\<rparr>))))"

definition HTML_EXTENSIONS :: "string list" where
  "HTML_EXTENSIONS = [''.html'', ''.htm'']"

definition html_files :: "string list \<Rightarrow> string list" where
  "html_files files = filter (\<lambda>f. lower (splitext_ext f) \<in> set HTML_EXTENSIONS) files"

definition support_files :: "string list \<Rightarrow> string list" where
  "support_files files = filter (\<lambda>f. lower (splitext_ext f) \<notin> set HTML_EXTENSIONS) files"

text \<open>
  The handler of \<open>/build-knowledge-base\<close>, acting on the module's engine \<open>rag_engine\<close>. Its
  answer is the pair of \<open>message\<close> and \<open>chunks_processed\<close>.
\<close>

definition build_knowledge_base ::
  "'db env \<Rightarrow> engine \<times> 'db world \<Rightarrow> (error + string \<times> nat) \<times> engine \<times> 'db world" where
  "build_knowledge_base env st =
     (case st of (rag_engine, w) \<Rightarrow>
        (case listdir env UPLOAD_DIR of
           Inl e \<Rightarrow> (Inl e, rag_engine, w)
         | Inr names \<Rightarrow>
             let files = map (path_join UPLOAD_DIR) names
             in if files = []
                then (Inl (HTTPException 400
                        ''Upload at least one support document and checkout.html before building the knowledge base.''),
                      rag_engine, w)
                else if html_files files = []
                then (Inl (HTTPException 400
                        ''checkout.html (or another HTML file) is required to build the knowledge base.''),
                      rag_engine, w)
                else if support_files files = []
                then (Inl (HTTPException 400
                        ''At least one support document (MD, TXT, JSON, etc.) is required alongside the HTML file.''),
                      rag_engine, w)
                else
                  (case clear_database env (rag_engine, w) of
                     (Inl e, st1) \<Rightarrow> (Inl e, st1)
                   | (Inr _, st1) \<Rightarrow>
                       (case ingest_documents env files st1 of
                          (Inl e, st2) \<Rightarrow> (Inl e, st2)
                        | (Inr num_chunks, st2) \<Rightarrow>
                            (Inr (''Knowledge Base Built Successfully'', num_chunks), st2)))))"

section \<open>Sequences of operations\<close>

text \<open>
  The operations that load files, clear the store and generate plans, each run in the
  environment of its moment. \<open>Load\<close> is the call of \<open>_load_with_metadata\<close> that
  \<open>ingest_documents\<close> makes for one path. A step gives whether the call returned (rather
  than raised) and the state it left; an exception ends the request, not the engine.
\<close>

datatype engine_op = Load string | Clear | GenPlan string "string option"

definition returned :: "error + 'a \<Rightarrow> bool" where
  "returned r = (case r of Inl e \<Rightarrow> False | Inr v \<Rightarrow> True)"

fun step :: "'db env \<Rightarrow> engine_op \<Rightarrow> engine \<times> 'db world \<Rightarrow> bool \<times> engine \<times> 'db world" where
  "step env (Load file_path) st =
     (case st of (self, w) \<Rightarrow>
        (case load_with_metadata env file_path self of (r, self1) \<Rightarrow> (returned r, self1, w)))"
| "step env Clear st = (case clear_database env st of (r, st1) \<Rightarrow> (returned r, st1))"
| "step env (GenPlan query api_key) st =
     (case generate_test_cases env query api_key st of (r, st1) \<Rightarrow> (returned r, st1))"

fun run ::
  "('db env \<times> engine_op) list \<Rightarrow> engine \<times> 'db world \<Rightarrow> bool list \<times> engine \<times> 'db world" where
  "run [] st = ([], st)"
| "run ((env, op) # rest) st =
     (case step env op st of (ok, st1) \<Rightarrow>
        (case run rest st1 of (oks, st2) \<Rightarrow> (ok # oks, st2)))"

text \<open>The Cached Page State of an engine.\<close>

definition cached_page :: "engine \<Rightarrow> string option \<times> string option" where
  "cached_page self = (latest_html_path self, latest_html_content self)"

text \<open>
  The cached page that a run of operations should leave, in the words of the
  specification: the path and raw markup of the page-markup file loaded last since the
  last clear that completed, and otherwise what was there before.
\<close>

fun page_after ::
  "(('db env \<times> engine_op) \<times> bool) list \<Rightarrow> string option \<times> string option
     \<Rightarrow> string option \<times> string option" where
  "page_after [] page = page"
| "page_after (((env, Load file_path), ok) # rest) page =
     page_after rest
       (if is_html_ext (lower (path_suffix file_path))
        then (case read_text env file_path of
                Inr raw_html \<Rightarrow> (Some file_path, Some raw_html)
              | Inl e \<Rightarrow> page)
        else page)"
| "page_after (((env, Clear), ok) # rest) page =
     page_after rest (if ok then (None, None) else page)"
| "page_after (((env, GenPlan query api_key), ok) # rest) page = page_after rest page"

section \<open>A small deployment\<close>

text \<open>
  The scenario of the specification: an upload area with one support file and one page
  of markup, an in-memory list of chunks as the database, and a model that answers with
  one test case and one script. The properties below are evaluated on it.
\<close>

definition promo_markup :: string where
  "promo_markup = ''<input id='' @ [CHR 0x22] @ ''promo-code'' @ [CHR 0x22] @ '' name='' @ [CHR 0x22] @ ''promo'' @ [CHR 0x22]
      @ ''><button id='' @ [CHR 0x22] @ ''apply-btn'' @ [CHR 0x22] @ ''>Apply</button>''"

definition promo_page :: "tag list" where
  "promo_page =
     [\<lparr>attr_id = Some ''promo-code'', attr_name = Some ''promo'', attr_class = None\<rparr>,
      \<lparr>attr_id = Some ''apply-btn'', attr_name = None, attr_class = None\<rparr>]"

definition promo_plan :: "string \<Rightarrow> test_plan" where
  "promo_plan src =
     \<lparr>test_viewpoints = [''discounts''],
      test_cases = [\<lparr>test_id = ''TC-1'', feature = ''promo code'',
                     test_scenario = ''apply a code'', expected_result = ''discount shown'',
                     grounded_in = src\<rparr>]\<rparr>"

definition fixture_env :: "document list env" where
  "fixture_env =
     \<lparr>soup_tags = (\<lambda>html. if html = promo_markup then promo_page else []),
      soup_get_text = (\<lambda>html. if html = promo_markup then ''Apply'' else html),
      read_text = (\<lambda>p. if p = ''data/uploads/checkout.html'' then Inr promo_markup
                      else if p = ''data/uploads/notes.txt''
                      then Inr ''The checkout page has a field named promo for discount codes.''
                      else Inl (LibraryError ''FileNotFoundError'')),
      path_exists = (\<lambda>p. p = ''data/uploads/checkout.html'' \<or> p = ''data/uploads/notes.txt''),
      path_isdir = (\<lambda>p. p = ''data/uploads''),
      listdir = (\<lambda>p. if p = ''data/uploads'' then Inr [''notes.txt'', ''checkout.html'']
                    else Inl (LibraryError ''FileNotFoundError'')),
      getenv = (\<lambda>k. None),
      markdown_loader = (\<lambda>p. Inl (LibraryError ''FileNotFoundError'')),
      text_loader = (\<lambda>p. if p = ''data/uploads/notes.txt''
                        then Inr [\<lparr>page_content = ''The checkout page has a field named promo for discount codes.'',
                                   metadata = [''source'' \<mapsto> p]\<rparr>]
                        else Inl (LibraryError ''FileNotFoundError'')),
      file_loader = (\<lambda>p. Inl (LibraryError ''FileNotFoundError'')),
      json_reserialize = (\<lambda>t. Inr t),
      split_documents = (\<lambda>size overlap docs. Inr docs),
      chroma_init = (\<lambda>store d. (Inr (), d)),
      delete_collection = (\<lambda>store d. (Inr (), [])),
      add_documents = (\<lambda>store docs d. (Inr (), d @ docs)),
      retrieve = (\<lambda>store k flt q d.
                    Inr (take k (filter (\<lambda>doc. case flt of None \<Rightarrow> True
                                                | Some (key, v) \<Rightarrow> metadata doc key = Some v) d))),
      plan_chain = (\<lambda>request. Inr (promo_plan ''notes.txt'')),
      script_chain = (\<lambda>request. Inr (''driver.find_element(By.ID, '' @ [CHR 0x22] @ ''promo-code'' @ [CHR 0x22] @ '')''))\<rparr>"

definition new_engine :: engine where
  "new_engine =
     \<lparr>embedding_function = ''all-MiniLM-L6-v2'',
      vector_store = \<lparr>persist_directory = CHROMA_PATH, chroma_embedding = ''all-MiniLM-L6-v2''\<rparr>,
      latest_html_path = None,
      latest_html_content = None\<rparr>"

definition empty_world :: "document list world" where
  "empty_world = \<lparr>db = [], llm_calls = []\<rparr>"

definition stocked_world :: "document list world" where
  "stocked_world =
     \<lparr>db = [\<lparr>page_content = ''The checkout page has a field named promo for discount codes.'',
              metadata = [''source_document'' \<mapsto> ''notes.txt'', ''doc_type'' \<mapsto> ''support'']\<rparr>],
      llm_calls = []\<rparr>"

text \<open>
  A model that cites a file nobody uploaded, cites nothing, and cites a real file; and a
  store whose only chunk carries no metadata.
\<close>

definition wild_plan :: test_plan where
  "wild_plan =
     \<lparr>test_viewpoints = [''discounts''],
      test_cases =
        [\<lparr>test_id = ''TC-1'', feature = ''promo code'', test_scenario = ''apply a code'',
          expected_result = ''discount shown'', grounded_in = '' invented.md''\<rparr>,
         \<lparr>test_id = ''TC-2'', feature = ''promo code'', test_scenario = ''apply no code'',
          expected_result = ''no discount'', grounded_in = []\<rparr>,
         \<lparr>test_id = ''TC-3'', feature = ''promo code'', test_scenario = ''apply twice'',
          expected_result = ''one discount'', grounded_in = ''notes.txt''\<rparr>]\<rparr>"

definition inventing_env :: "document list env" where
  "inventing_env = fixture_env\<lparr>plan_chain := \<lambda>request. Inr wild_plan\<rparr>"

definition bare_world :: "document list world" where
  "bare_world = \<lparr>db = [\<lparr>page_content = ''Apply'', metadata = Map.empty\<rparr>], llm_calls = []\<rparr>"

definition rebuild_ops :: "(document list env \<times> engine_op) list" where
  "rebuild_ops =
     [(fixture_env, Load ''data/uploads/checkout.html''),
      (fixture_env, Clear),
      (fixture_env, Load ''data/uploads/notes.txt''),
      (fixture_env, Load ''data/uploads/checkout.html''),
      (fixture_env, GenPlan ''discount code tests'' None)]"


section \<open>Evaluation on the deployment\<close>

lemmas string_defs = endswith_def startswith_def lower_def lower_char_def strip_def py_isspace_def


lemmas path_defs = path_suffix_def path_name_def basename_def path_join_def splitext_ext_def

lemma suffix_checkout: "lower (path_suffix ''data/uploads/checkout.html'') = ''.html''"
  by (simp add: path_defs string_defs)

lemma suffix_notes: "lower (path_suffix ''data/uploads/notes.txt'') = ''.txt''"
  by (simp add: path_defs string_defs)

lemma suffix_upper: "lower (path_suffix ''data/uploads/Checkout.HTM'') = ''.htm''"
  by code_simp



lemma rag_engine_init_deployment:
  "rag_engine_init fixture_env empty_world = (Inr new_engine, empty_world)"
  by (simp add: rag_engine_init_def fixture_env_def new_engine_def empty_world_def Let_def)

section \<open>Properties of plan generation and grounding\<close>

lemma grounding_loop_filter:
  "grounding_loop allowed cs acc =
     acc @ map (\<lambda>c. (test_id c, strip (grounded_in c)))
             (filter (\<lambda>c. strip (grounded_in c) \<notin> allowed) cs)"
  by (induction cs arbitrary: acc) (simp_all add: Let_def str_or_def)

lemma validate_grounding_ok_iff:
  assumes "allowed \<noteq> {}"
  shows "validate_grounding plan allowed = Inr ()
         \<longleftrightarrow> (\<forall>c\<in>set (test_cases plan). strip (grounded_in c) \<in> allowed)"
  using assms
  by (auto simp: validate_grounding_def Let_def grounding_loop_filter filter_empty_conv)

lemma validate_grounding_error:
  assumes "allowed \<noteq> {}"
    and "\<exists>c\<in>set (test_cases plan). strip (grounded_in c) \<notin> allowed"
  shows "validate_grounding plan allowed =
           Inl (ValueError
                  (''Grounding validation failed. Unknown sources referenced: ''
                     @ join '', ''
                         (map (\<lambda>c. test_id c @ '':'' @ str_or (strip (grounded_in c)) ''missing'')
                            (filter (\<lambda>c. strip (grounded_in c) \<notin> allowed) (test_cases plan)))))"
proof -
  have "filter (\<lambda>c. strip (grounded_in c) \<notin> allowed) (test_cases plan) \<noteq> []"
    using assms(2) by (simp add: filter_empty_conv)
  then show ?thesis
    using assms(1)
    by (simp add: validate_grounding_def Let_def grounding_loop_filter grounding_detail_def
          comp_def)
qed

lemma stocked_sources: "collect_sources (db stocked_world) = {''notes.txt''}"
  by (simp add: stocked_world_def collect_sources_def dict_get_def)

lemma strip_invented: "strip '' invented.md'' = ''invented.md''"
  by (simp add: strip_def py_isspace_def)

text \<open>
  C1 (as amended). Suppose the retrieval of a \<open>generate_test_cases\<close> call yields a
  non-empty Allowed-Sources Set, the set of the non-empty \<open>source_document\<close> values of the
  retrieved chunks. Then every test case of a returned plan has a \<open>grounded_in\<close> value
  that, trimmed, belongs to that set; and if the parsed plan has a test case outside it,
  the call fails with the \<open>ValueError\<close> whose text lists every violating pair of test id
  and trimmed source, in plan order (an empty source printed as \<open>missing\<close>).
\<close>

theorem grounding_enforced_for_retrieved_sources:
  assumes r: "retrieve env (vector_store self) 6 None query (db w) = Inr context_docs"
    and ne: "collect_sources context_docs \<noteq> {}"
  shows "(fst (generate_test_cases env query api_key (self, w)) = Inr plan
            \<longrightarrow> (\<forall>c\<in>set (test_cases plan).
                   strip (grounded_in c) \<in> collect_sources context_docs))
         \<and> (plan_chain env (get_llm env api_key,
                 [(''context'', format_docs context_docs), (''query'', query)]) = Inr plan
              \<and> (\<exists>c\<in>set (test_cases plan).
                    strip (grounded_in c) \<notin> collect_sources context_docs)
            \<longrightarrow> fst (generate_test_cases env query api_key (self, w)) =
                  Inl (ValueError
                    (''Grounding validation failed. Unknown sources referenced: ''
                       @ join '', ''
                           (map (\<lambda>c. test_id c @ '':'' @ str_or (strip (grounded_in c)) ''missing'')
                              (filter (\<lambda>c. strip (grounded_in c) \<notin> collect_sources context_docs)
                                 (test_cases plan))))))"
proof (intro conjI impI)
  assume ret: "fst (generate_test_cases env query api_key (self, w)) = Inr plan"
  then have "validate_grounding plan (collect_sources context_docs) = Inr ()"
    using r by (auto simp: generate_test_cases_def Let_def split: sum.splits)
  then show "\<forall>c\<in>set (test_cases plan). strip (grounded_in c) \<in> collect_sources context_docs"
    using validate_grounding_ok_iff [OF ne] by blast
next
  assume a: "plan_chain env (get_llm env api_key,
                 [(''context'', format_docs context_docs), (''query'', query)]) = Inr plan
              \<and> (\<exists>c\<in>set (test_cases plan).
                    strip (grounded_in c) \<notin> collect_sources context_docs)"
  then show "fst (generate_test_cases env query api_key (self, w)) =
                  Inl (ValueError
                    (''Grounding validation failed. Unknown sources referenced: ''
                       @ join '', ''
                           (map (\<lambda>c. test_id c @ '':'' @ str_or (strip (grounded_in c)) ''missing'')
                              (filter (\<lambda>c. strip (grounded_in c) \<notin> collect_sources context_docs)
                                 (test_cases plan)))))"
    using r validate_grounding_error [OF ne, of plan]
    by (simp add: generate_test_cases_def Let_def)
qed

theorem grounding_enforced_for_retrieved_sources_witness:
  "collect_sources (db stocked_world) = {''notes.txt''}
   \<and> fst (generate_test_cases inventing_env ''discount code tests'' None
            (new_engine, stocked_world))
       = Inl (ValueError
           ''Grounding validation failed. Unknown sources referenced: TC-1:invented.md, TC-2:missing'')"
proof -
  have r: "retrieve inventing_env (vector_store new_engine) 6 None ''discount code tests''
             (db stocked_world) = Inr (db stocked_world)"
    by (simp add: inventing_env_def fixture_env_def stocked_world_def)
  have ne: "collect_sources (db stocked_world) \<noteq> {}"
    by (simp add: stocked_sources)
  have p: "plan_chain inventing_env (get_llm inventing_env None,
             [(''context'', format_docs (db stocked_world)), (''query'', ''discount code tests'')])
           = Inr wild_plan"
    by (simp add: inventing_env_def)
  have v: "\<exists>c\<in>set (test_cases wild_plan).
             strip (grounded_in c) \<notin> collect_sources (db stocked_world)"
    by (simp add: wild_plan_def stocked_sources strip_invented)
  show ?thesis
    using grounding_enforced_for_retrieved_sources [OF r ne, of None wild_plan] p v
    by (simp add: wild_plan_def stocked_sources strip_invented str_or_def strip_def
          py_isspace_def)
qed

text \<open>
  C1 as stated has no such premise and fails on an empty retrieval: the plan is returned
  although its first test case cites a source outside the (empty) Allowed-Sources Set.
\<close>

theorem ungrounded_plan_returned_counterexample:
  "retrieve inventing_env (vector_store new_engine) 6 None ''discount code tests''
     (db empty_world) = Inr []
   \<and> fst (generate_test_cases inventing_env ''discount code tests'' None
            (new_engine, empty_world)) = Inr wild_plan
   \<and> grounded_in (hd (test_cases wild_plan)) = '' invented.md''
   \<and> strip '' invented.md'' \<notin> collect_sources []"
  by (simp add: generate_test_cases_def validate_grounding_def collect_sources_def Let_def
        inventing_env_def fixture_env_def empty_world_def wild_plan_def)

text \<open>
  C3. When the retrieval yields an empty Allowed-Sources Set, \<open>generate_test_cases\<close>
  returns the plan the chain parsed, whatever its test cases cite.
\<close>

theorem empty_sources_skip_grounding:
  assumes "retrieve env (vector_store self) 6 None query (db w) = Inr context_docs"
    and "collect_sources context_docs = {}"
    and "plan_chain env (get_llm env api_key,
            [(''context'', format_docs context_docs), (''query'', query)]) = Inr plan"
  shows "fst (generate_test_cases env query api_key (self, w)) = Inr plan"
  using assms by (simp add: generate_test_cases_def validate_grounding_def Let_def)

theorem empty_sources_skip_grounding_witness:
  "collect_sources (db bare_world) = {}
   \<and> fst (generate_test_cases inventing_env ''discount code tests'' None (new_engine, bare_world))
       = Inr wild_plan"
proof -
  have r: "retrieve inventing_env (vector_store new_engine) 6 None ''discount code tests''
             (db bare_world) = Inr (db bare_world)"
    by (simp add: inventing_env_def fixture_env_def bare_world_def)
  have c: "collect_sources (db bare_world) = {}"
    by (simp add: collect_sources_def bare_world_def)
  have p: "plan_chain inventing_env (get_llm inventing_env None,
             [(''context'', format_docs (db bare_world)), (''query'', ''discount code tests'')])
           = Inr wild_plan"
    by (simp add: inventing_env_def)
  show ?thesis
    using empty_sources_skip_grounding [OF r c p] c by simp
qed

text \<open>
  C10. A call of \<open>generate_test_cases\<close>, whether it returns a plan or raises, leaves the
  engine (the store it is bound to and both cached page fields) and the database of the
  store as they were.
\<close>

theorem generate_test_cases_frame:
  "fst (snd (generate_test_cases env query api_key (self, w))) = self
   \<and> db (snd (snd (generate_test_cases env query api_key (self, w)))) = db w"
  by (simp add: generate_test_cases_def Let_def split: sum.splits)

section \<open>Properties of selector validation\<close>

lemma html_ids_iff:
  "i \<in> html_ids soup \<longleftrightarrow> i \<noteq> [] \<and> (\<exists>t\<in>set soup. attr_id t = Some i)"
  by (force simp: html_ids_def image_iff)

lemma html_names_iff:
  "n \<in> html_names soup \<longleftrightarrow> n \<noteq> [] \<and> (\<exists>t\<in>set soup. attr_name t = Some n)"
  by (force simp: html_names_def image_iff)

lemma html_classes_iff:
  "c \<in> html_classes soup \<longleftrightarrow> (\<exists>t\<in>set soup. \<exists>cs. attr_class t = Some cs \<and> c \<in> set cs)"
  by (force simp: html_classes_def split: option.splits)







section \<open>Properties of script generation\<close>







section \<open>Properties of loading\<close>

lemma base_metadata_lookup:
  "base_metadata file_path k =
     (if k = ''doc_type''
      then Some (if is_html_ext (lower (path_suffix file_path)) then ''html'' else ''support'')
      else if k = ''source_document'' then Some (basename file_path)
      else None)"
  by (simp add: base_metadata_def Let_def)

lemma apply_defaults_lookup:
  "metadata (apply_defaults (base_metadata file_path) doc) k =
     (case metadata doc k of Some v \<Rightarrow> Some v | None \<Rightarrow> base_metadata file_path k)"
  by (auto simp: apply_defaults_def setdefault_def base_metadata_def Let_def
        split: option.splits)

lemma apply_defaults_content:
  "page_content (apply_defaults base doc) = page_content doc"
  by (simp add: apply_defaults_def)

lemma load_by_extension_html:
  assumes "is_html_ext (lower (path_suffix file_path))"
  shows "load_by_extension env file_path self =
           load_html env file_path (base_metadata file_path) self"
  using assms by (auto simp: load_by_extension_def Let_def is_html_ext_def)

lemma load_html_metadata:
  assumes "load_html env file_path md self = (Inr docs, self1)"
  shows "\<forall>d\<in>set docs. metadata d = md"
  using assms by (auto simp: load_html_def Let_def split: sum.splits)

lemma setdefault_present: "m k = Some v' \<Longrightarrow> setdefault m k v = m"
  by (simp add: setdefault_def)

lemma load_with_metadata_html:
  assumes "is_html_ext (lower (path_suffix file_path))"
    and "read_text env file_path = Inr raw_html"
  shows "load_with_metadata env file_path self =
           (Inr [\<lparr>page_content = soup_get_text env raw_html,
                  metadata = base_metadata file_path\<rparr>],
            self\<lparr>latest_html_path := Some file_path, latest_html_content := Some raw_html\<rparr>)"
proof -
  have "apply_defaults (base_metadata file_path)
               \<lparr>page_content = c, metadata = base_metadata file_path\<rparr>
             = \<lparr>page_content = c, metadata = base_metadata file_path\<rparr>" for c
    by (simp add: apply_defaults_def setdefault_present base_metadata_lookup)
  then show ?thesis
    using assms
    by (simp add: load_with_metadata_def load_by_extension_html load_html_def Let_def)
qed

text \<open>
  C7. The documents \<open>_load_with_metadata\<close> returns are those of the loader picked by the
  extension, each with its text unchanged and with \<open>doc_type\<close> and \<open>source_document\<close>
  filled in where the loader left them unset: \<open>doc_type\<close> is then \<open>html\<close> when the
  extension, in lower case, is \<open>.html\<close> or \<open>.htm\<close>, and \<open>support\<close> otherwise, and
  \<open>source_document\<close> is the base name of the path. A key the loader has set keeps its
  value, and no other key changes. For page markup and JSON, which the engine loads
  itself, both keys always carry these values.
\<close>

theorem loader_metadata_defaults:
  assumes "load_with_metadata env file_path self = (Inr docs, self1)"
  shows "\<exists>loaded. load_by_extension env file_path self = (Inr loaded, self1)
           \<and> length docs = length loaded
           \<and> (\<forall>i<length docs.
                 page_content (docs ! i) = page_content (loaded ! i)
                 \<and> metadata (docs ! i) ''doc_type'' =
                     Some (case metadata (loaded ! i) ''doc_type'' of
                             Some v \<Rightarrow> v
                           | None \<Rightarrow> if is_html_ext (lower (path_suffix file_path))
                                     then ''html'' else ''support'')
                 \<and> metadata (docs ! i) ''source_document'' =
                     Some (case metadata (loaded ! i) ''source_document'' of
                             Some v \<Rightarrow> v
                           | None \<Rightarrow> basename file_path)
                 \<and> (\<forall>k. k \<noteq> ''doc_type'' \<and> k \<noteq> ''source_document''
                        \<longrightarrow> metadata (docs ! i) k = metadata (loaded ! i) k))
           \<and> (is_html_ext (lower (path_suffix file_path)) \<longrightarrow>
                 (\<forall>d\<in>set docs. metadata d ''doc_type'' = Some ''html''
                               \<and> metadata d ''source_document'' = Some (basename file_path)))
           \<and> (lower (path_suffix file_path) = ''.json'' \<longrightarrow>
                 (\<forall>d\<in>set docs. metadata d ''doc_type'' = Some ''support''
                               \<and> metadata d ''source_document'' = Some (basename file_path)))"
proof -
  from assms obtain loaded where
    l: "load_by_extension env file_path self = (Inr loaded, self1)" and
    d: "docs = map (apply_defaults (base_metadata file_path)) loaded"
    by (auto simp: load_with_metadata_def split: prod.splits sum.splits)
  have each: "\<forall>i<length docs.
                 page_content (docs ! i) = page_content (loaded ! i)
                 \<and> metadata (docs ! i) ''doc_type'' =
                     Some (case metadata (loaded ! i) ''doc_type'' of
                             Some v \<Rightarrow> v
                           | None \<Rightarrow> if is_html_ext (lower (path_suffix file_path))
                                     then ''html'' else ''support'')
                 \<and> metadata (docs ! i) ''source_document'' =
                     Some (case metadata (loaded ! i) ''source_document'' of
                             Some v \<Rightarrow> v
                           | None \<Rightarrow> basename file_path)
                 \<and> (\<forall>k. k \<noteq> ''doc_type'' \<and> k \<noteq> ''source_document''
                        \<longrightarrow> metadata (docs ! i) k = metadata (loaded ! i) k)"
    unfolding d
    by (auto simp: apply_defaults_lookup apply_defaults_content base_metadata_lookup
          split: option.splits)
  have html: "\<forall>d\<in>set docs. metadata d ''doc_type'' = Some ''html''
                               \<and> metadata d ''source_document'' = Some (basename file_path)"
    if h: "is_html_ext (lower (path_suffix file_path))"
  proof -
    have "\<forall>x\<in>set loaded. metadata x = base_metadata file_path"
      using l load_by_extension_html [OF h] load_html_metadata by metis
    then show ?thesis
      unfolding d using h
      by (auto simp: apply_defaults_lookup base_metadata_lookup)
  qed
  have json: "\<forall>d\<in>set docs. metadata d ''doc_type'' = Some ''support''
                               \<and> metadata d ''source_document'' = Some (basename file_path)"
    if j: "lower (path_suffix file_path) = ''.json''"
  proof -
    have "\<forall>x\<in>set loaded. metadata x = base_metadata file_path"
      using l j by (auto simp: load_by_extension_def load_json_def Let_def split: sum.splits)
    then show ?thesis
      unfolding d using j
      by (auto simp: apply_defaults_lookup base_metadata_lookup is_html_ext_def)
  qed
  show ?thesis
    using l d each html json by auto
qed

theorem loader_metadata_defaults_witness:
  "load_with_metadata (fixture_env\<lparr>read_text := \<lambda>p. Inr promo_markup\<rparr>)
     ''data/uploads/Checkout.HTM'' new_engine =
     (Inr [\<lparr>page_content = ''Apply'',
            metadata = [''source_document'' \<mapsto> ''Checkout.HTM'', ''doc_type'' \<mapsto> ''html'']\<rparr>],
      new_engine\<lparr>latest_html_path := Some ''data/uploads/Checkout.HTM'',
                 latest_html_content := Some promo_markup\<rparr>)
   \<and> (\<exists>d. fst (load_with_metadata fixture_env ''data/uploads/notes.txt'' new_engine) = Inr [d]
          \<and> metadata d ''doc_type'' = Some ''support''
          \<and> metadata d ''source_document'' = Some ''notes.txt''
          \<and> metadata d ''source'' = Some ''data/uploads/notes.txt'')"
proof -
  let ?env = "fixture_env\<lparr>read_text := \<lambda>p. Inr promo_markup\<rparr>"
  let ?p = "''data/uploads/Checkout.HTM''"
  let ?q = "''data/uploads/notes.txt''"
  let ?self1 = "new_engine\<lparr>latest_html_path := Some ?p, latest_html_content := Some promo_markup\<rparr>"
  have bm: "base_metadata ?p = [''source_document'' \<mapsto> ''Checkout.HTM'', ''doc_type'' \<mapsto> ''html'']"
    by (simp add: base_metadata_def Let_def suffix_upper is_html_ext_def basename_def)
  have l: "load_with_metadata ?env ?p new_engine =
             (Inr [\<lparr>page_content = ''Apply'', metadata = base_metadata ?p\<rparr>], ?self1)"
    using load_with_metadata_html [of ?p ?env promo_markup new_engine]
    by (simp add: suffix_upper is_html_ext_def fixture_env_def)
  from loader_metadata_defaults [OF l]
  have "\<forall>d\<in>set [\<lparr>page_content = ''Apply'', metadata = base_metadata ?p\<rparr>].
          metadata d ''doc_type'' = Some ''html''
          \<and> metadata d ''source_document'' = Some (basename ?p)"
    by (auto simp: suffix_upper is_html_ext_def)
  then have first: "load_with_metadata ?env ?p new_engine =
     (Inr [\<lparr>page_content = ''Apply'',
            metadata = [''source_document'' \<mapsto> ''Checkout.HTM'', ''doc_type'' \<mapsto> ''html'']\<rparr>],
      ?self1)"
    using l bm by simp
  let ?raw = "\<lparr>page_content = ''The checkout page has a field named promo for discount codes.'',
               metadata = [''source'' \<mapsto> ?q]\<rparr>"
  have raw: "load_by_extension fixture_env ?q new_engine = (Inr [?raw], new_engine)"
    by (simp add: load_by_extension_def suffix_notes fixture_env_def)
  then have m: "load_with_metadata fixture_env ?q new_engine =
                  (Inr [apply_defaults (base_metadata ?q) ?raw], new_engine)"
    by (simp add: load_with_metadata_def)
  from loader_metadata_defaults [OF m] raw
  have "metadata (apply_defaults (base_metadata ?q) ?raw) ''doc_type'' = Some ''support''
        \<and> metadata (apply_defaults (base_metadata ?q) ?raw) ''source_document''
            = Some (basename ?q)
        \<and> metadata (apply_defaults (base_metadata ?q) ?raw) ''source'' = Some ?q"
    by (auto simp: suffix_notes is_html_ext_def)
  then have second:
    "\<exists>d. fst (load_with_metadata fixture_env ?q new_engine) = Inr [d]
          \<and> metadata d ''doc_type'' = Some ''support''
          \<and> metadata d ''source_document'' = Some ''notes.txt''
          \<and> metadata d ''source'' = Some ?q"
    using m by (simp add: path_defs)
  from first second show ?thesis by blast
qed

section \<open>Properties of the cached page\<close>

lemma load_with_metadata_html_error:
  assumes "is_html_ext (lower (path_suffix file_path))"
    and "read_text env file_path = Inl e"
  shows "snd (load_with_metadata env file_path self) = self"
  using assms by (simp add: load_with_metadata_def load_by_extension_html load_html_def)

lemma load_with_metadata_other:
  assumes "\<not> is_html_ext (lower (path_suffix file_path))"
  shows "snd (load_with_metadata env file_path self) = self"
  using assms
  by (auto simp: load_with_metadata_def load_by_extension_def Let_def
        split: prod.splits sum.splits)

lemma clear_database_page:
  "cached_page (fst (snd (clear_database env (self, w)))) =
     (if returned (fst (clear_database env (self, w))) then (None, None) else cached_page self)"
  by (simp add: clear_database_def cached_page_def returned_def Let_def
        split: prod.splits sum.splits)

lemma step_page:
  "cached_page (fst (snd (step env op st))) =
     page_after [((env, op), fst (step env op st))] (cached_page (fst st))"
proof (cases st)
  case (Pair self w)
  show ?thesis
  proof (cases op)
    case (Load file_path)
    show ?thesis
    proof (cases "is_html_ext (lower (path_suffix file_path))")
      case True
      then show ?thesis
        using load_with_metadata_html [OF True, of env _ self]
          load_with_metadata_html_error [OF True, of env _ self]
        unfolding Pair Load
        by (cases "read_text env file_path")
           (auto simp: cached_page_def split: prod.splits)
    next
      case False
      then show ?thesis
        using load_with_metadata_other [OF False, of env self]
        unfolding Pair Load
        by (auto simp: cached_page_def split: prod.splits)
    qed
  next
    case Clear
    then show ?thesis
      unfolding Pair using clear_database_page [of env self w]
      by (auto split: prod.splits)
  next
    case (GenPlan query api_key)
    have "fst (snd (generate_test_cases env query api_key (self, w))) = self"
      by (simp add: generate_test_cases_def Let_def split: sum.splits)
    then show ?thesis
      unfolding Pair GenPlan by (auto split: prod.splits)
  qed
qed

lemma page_after_Cons:
  "page_after (x # rest) page = page_after rest (page_after [x] page)"
proof -
  obtain env op ok where x: "x = ((env, op), ok)" by (metis surj_pair)
  show ?thesis unfolding x by (cases op) simp_all
qed

lemma run_page:
  "cached_page (fst (snd (run ops st))) =
     page_after (zip ops (fst (run ops st))) (cached_page (fst st))"
proof (induction ops arbitrary: st)
  case Nil
  then show ?case by simp
next
  case (Cons x ops)
  obtain env op where x: "x = (env, op)" by (cases x)
  obtain ok st1 where s: "step env op st = (ok, st1)" by (cases "step env op st")
  obtain oks st2 where r: "run ops st1 = (oks, st2)" by (cases "run ops st1")
  have one: "cached_page (fst st1) = page_after [((env, op), ok)] (cached_page (fst st))"
    using step_page [of env op st] s by simp
  have more: "cached_page (fst st2) = page_after (zip ops oks) (cached_page (fst st1))"
    using Cons.IH [of st1] r by simp
  have "run (x # ops) st = (ok # oks, st2)"
    unfolding x by (simp add: s r)
  then show ?case
    using one more page_after_Cons [of "((env, op), ok)" "zip ops oks"]
    by (simp add: x)
qed

text \<open>
  C8 (as amended). Loading a page-markup file sets the cached page to the path of the
  file and its raw markup, while the document it produces holds the text extracted from
  that markup; a \<open>clear_database\<close> call that returns leaves both cached fields empty; and
  after any sequence of file loads, clears and plan generations the cached page is that
  of the page-markup file loaded last since the last clear that returned, or what it
  was at the start when there is neither.
\<close>

theorem cached_page_follows_loads_and_clears:
  "(is_html_ext (lower (path_suffix file_path)) \<and> read_text env file_path = Inr raw_html \<longrightarrow>
      load_with_metadata env file_path self =
        (Inr [\<lparr>page_content = soup_get_text env raw_html, metadata = base_metadata file_path\<rparr>],
         self\<lparr>latest_html_path := Some file_path, latest_html_content := Some raw_html\<rparr>))
   \<and> (fst (clear_database env (self, w)) = Inr () \<longrightarrow>
        cached_page (fst (snd (clear_database env (self, w)))) = (None, None))
   \<and> cached_page (fst (snd (run ops st))) =
        page_after (zip ops (fst (run ops st))) (cached_page (fst st))"
  using load_with_metadata_html [of file_path env raw_html self]
    clear_database_page [of env self w] run_page [of ops st]
  by (simp add: returned_def)

lemma rebuild_ops_flags:
  "fst (run rebuild_ops (new_engine, empty_world)) = [True, True, True, True, True]"
  by (simp add: rebuild_ops_def load_with_metadata_def load_by_extension_def load_html_def
        suffix_checkout suffix_notes is_html_ext_def clear_database_def
        generate_test_cases_def validate_grounding_def collect_sources_def returned_def
        fixture_env_def new_engine_def empty_world_def Let_def)

lemma rebuild_ops_page:
  "page_after (zip rebuild_ops [True, True, True, True, True]) (cached_page new_engine)
     = (Some ''data/uploads/checkout.html'', Some promo_markup)"
  by (simp add: rebuild_ops_def suffix_checkout suffix_notes is_html_ext_def fixture_env_def)

theorem cached_page_follows_loads_and_clears_witness:
  "load_with_metadata fixture_env ''data/uploads/checkout.html'' new_engine =
     (Inr [\<lparr>page_content = ''Apply'',
            metadata = base_metadata ''data/uploads/checkout.html''\<rparr>],
      new_engine\<lparr>latest_html_path := Some ''data/uploads/checkout.html'',
                 latest_html_content := Some promo_markup\<rparr>)
   \<and> cached_page (fst (snd (clear_database fixture_env
         (new_engine\<lparr>latest_html_path := Some ''data/uploads/checkout.html'',
                     latest_html_content := Some promo_markup\<rparr>, empty_world))))
       = (None, None)
   \<and> cached_page (fst (snd (run rebuild_ops (new_engine, empty_world))))
       = (Some ''data/uploads/checkout.html'', Some promo_markup)"
proof -
  let ?loaded = "new_engine\<lparr>latest_html_path := Some ''data/uploads/checkout.html'',
                     latest_html_content := Some promo_markup\<rparr>"
  note t = cached_page_follows_loads_and_clears
             [where file_path = "''data/uploads/checkout.html''" and env = fixture_env
                and raw_html = promo_markup and self = new_engine
                and ops = rebuild_ops and st = "(new_engine, empty_world)"]
  note u = cached_page_follows_loads_and_clears
             [where env = fixture_env and self = ?loaded and w = empty_world]
  have h: "is_html_ext (lower (path_suffix ''data/uploads/checkout.html''))
           \<and> read_text fixture_env ''data/uploads/checkout.html'' = Inr promo_markup"
    by (simp add: suffix_checkout is_html_ext_def fixture_env_def)
  have g: "soup_get_text fixture_env promo_markup = ''Apply''"
    by (simp add: fixture_env_def)
  have c: "fst (clear_database fixture_env (?loaded, empty_world)) = Inr ()"
    by (simp add: clear_database_def fixture_env_def)
  from t h g have first:
    "load_with_metadata fixture_env ''data/uploads/checkout.html'' new_engine =
       (Inr [\<lparr>page_content = ''Apply'',
              metadata = base_metadata ''data/uploads/checkout.html''\<rparr>], ?loaded)"
    by simp
  from u c have second:
    "cached_page (fst (snd (clear_database fixture_env (?loaded, empty_world)))) = (None, None)"
    by blast
  from t have "cached_page (fst (snd (run rebuild_ops (new_engine, empty_world)))) =
        page_after (zip rebuild_ops (fst (run rebuild_ops (new_engine, empty_world))))
          (cached_page (fst (new_engine, empty_world)))"
    by blast
  then have third:
    "cached_page (fst (snd (run rebuild_ops (new_engine, empty_world))))
       = (Some ''data/uploads/checkout.html'', Some promo_markup)"
    by (simp only: rebuild_ops_flags rebuild_ops_page fst_conv)
  from first second third show ?thesis by blast
qed

text \<open>
  C8 as stated speaks of any sequence of operations. Script generation is one, and on an
  engine with an empty cache it reads the first page of the upload area into the cache,
  although no page-markup file has been loaded and nothing has been cleared.
\<close>

theorem lazy_recovery_counterexample:
  "cached_page new_engine = (None, None)
   \<and> cached_page (fst (snd (generate_selenium_script fixture_env
         (hd (test_cases (promo_plan ''notes.txt''))) None None (new_engine, empty_world))))
       = (Some ''data/uploads/checkout.html'', Some promo_markup)"
  by (simp add: generate_selenium_script_def resolve_html_source_def get_latest_html_content_def
        cached_page_def fixture_env_def new_engine_def empty_world_def promo_plan_def
        UPLOAD_DIR_def path_join_def string_defs Let_def split: sum.splits)

section \<open>Properties of building and clearing\<close>

text \<open>
  C5. When the upload directory lists no file, no page-markup file, or no support file,
  \<open>build_knowledge_base\<close> raises an \<open>HTTPException\<close> with status 400, and the engine and
  the world are as before the call: neither \<open>clear_database\<close> nor \<open>ingest_documents\<close>
  has run.
\<close>

theorem empty_corpus_rejected:
  assumes "listdir env UPLOAD_DIR = Inr names"
    and "names = [] \<or> html_files (map (path_join UPLOAD_DIR) names) = []
         \<or> support_files (map (path_join UPLOAD_DIR) names) = []"
  shows "\<exists>detail. build_knowledge_base env (rag_engine, w) =
                    (Inl (HTTPException 400 detail), rag_engine, w)"
  using assms by (auto simp: build_knowledge_base_def Let_def)

theorem empty_corpus_rejected_witness:
  "html_files (map (path_join UPLOAD_DIR) [''notes.txt'', ''faq.md'']) = []
   \<and> build_knowledge_base (fixture_env\<lparr>listdir := \<lambda>p. Inr [''notes.txt'', ''faq.md'']\<rparr>)
         (new_engine, stocked_world) =
       (Inl (HTTPException 400
          ''checkout.html (or another HTML file) is required to build the knowledge base.''),
        new_engine, stocked_world)"
proof -
  let ?env = "fixture_env\<lparr>listdir := \<lambda>p. Inr [''notes.txt'', ''faq.md'']\<rparr>"
  have l: "listdir ?env UPLOAD_DIR = Inr [''notes.txt'', ''faq.md'']" by simp
  have h: "html_files (map (path_join UPLOAD_DIR) [''notes.txt'', ''faq.md'']) = []"
    by (simp add: html_files_def HTML_EXTENSIONS_def UPLOAD_DIR_def path_join_def
          splitext_ext_def string_defs)
  from empty_corpus_rejected [OF l, of new_engine stocked_world] h
  obtain detail where
    d: "build_knowledge_base ?env (new_engine, stocked_world) =
          (Inl (HTTPException 400 detail), new_engine, stocked_world)"
    by blast
  have "fst (build_knowledge_base ?env (new_engine, stocked_world)) =
          Inl (HTTPException 400
            ''checkout.html (or another HTML file) is required to build the knowledge base.'')"
    using h by (simp add: build_knowledge_base_def Let_def)
  with d h show ?thesis by simp
qed



end
